theory Spec2Isabelle
  imports Main
begin

section \<open>Exceptions and results\<close>

text \<open>
  Every exception of \<^verbatim>\<open>feature.py\<close> is a value; a function that can raise returns
  \<open>error + 'a\<close> with \<open>Inl\<close> the exception. \<open>LibraryError\<close> is an exception raised inside a
  call of an external library (RDKit, mordred, PaDEL), propagated unchanged.
\<close>

datatype error =
    ValueError string
  | TypeError string
  | AttributeError string
  | NotImplementedError string
  | DeprecationWarning string
  | AssertionError
  | KeyError string
  | FileNotFoundError string
  | LibraryError string

definition lib :: "string + 'a \<Rightarrow> error + 'a" where
  "lib r = (case r of Inl msg \<Rightarrow> Inl (LibraryError msg) | Inr x \<Rightarrow> Inr x)"

text \<open>A list comprehension \<^verbatim>\<open>[f(x) for x in xs]\<close>: the first exception aborts it.\<close>

fun for_each :: "('a \<Rightarrow> error + 'b) \<Rightarrow> 'a list \<Rightarrow> error + 'b list" where
  "for_each f [] = Inr []"
| "for_each f (x # xs) =
     (case f x of
        Inl e \<Rightarrow> Inl e
      | Inr y \<Rightarrow> (case for_each f xs of Inl e \<Rightarrow> Inl e | Inr ys \<Rightarrow> Inr (y # ys)))"

section \<open>Strings\<close>

text \<open>
  \<^verbatim>\<open>str.lower\<close>, \<^verbatim>\<open>str.upper\<close> and \<^verbatim>\<open>str.startswith\<close> on ASCII text: the letters
  \<open>A\<close> to \<open>Z\<close> and \<open>a\<close> to \<open>z\<close> are mapped to each other, every other character is kept.
\<close>

definition ascii_lowercase :: string where
  "ascii_lowercase = ''abcdefghijklmnopqrstuvwxyz''"

definition ascii_uppercase :: string where
  "ascii_uppercase = ''ABCDEFGHIJKLMNOPQRSTUVWXYZ''"

definition lower_char :: "char \<Rightarrow> char" where
  "lower_char c = (case map_of (zip ascii_uppercase ascii_lowercase) c of Some l \<Rightarrow> l | None \<Rightarrow> c)"

definition upper_char :: "char \<Rightarrow> char" where
  "upper_char c = (case map_of (zip ascii_lowercase ascii_uppercase) c of Some u \<Rightarrow> u | None \<Rightarrow> c)"

definition lower :: "string \<Rightarrow> string" where
  "lower s = map lower_char s"

definition upper :: "string \<Rightarrow> string" where
  "upper s = map upper_char s"

definition startswith :: "string \<Rightarrow> string \<Rightarrow> bool" where
  "startswith s p = (take (length p) s = p)"

section \<open>Molecules and the external toolkits\<close>

text \<open>
  A molecule object: its property table (every property set on it, private ones such as
  \<open>_Name\<close> included) and its structure, which only the external libraries read.
\<close>

record RDKitMol =
  props :: "(string \<times> string) list"
  molblock :: string

text \<open>
  \<^verbatim>\<open>mol.GetProp(key)\<close> raises \<^verbatim>\<open>KeyError\<close> for a property that is not set.
  \<^verbatim>\<open>mol.GetPropsAsDict(includePrivate=False, includeComputed=False)\<close> is RDKit's
  signature: unless \<open>includePrivate\<close> is passed as true, the properties whose names start
  with an underscore are left out of the dictionary.
\<close>

definition GetProp :: "RDKitMol \<Rightarrow> string \<Rightarrow> error + string" where
  "GetProp mol key = (case map_of (props mol) key of None \<Rightarrow> Inl (KeyError key) | Some v \<Rightarrow> Inr v)"

definition GetPropsAsDict :: "RDKitMol \<Rightarrow> bool \<Rightarrow> (string \<times> string) list" where
  "GetPropsAsDict mol includePrivate =
     filter (\<lambda>(key, v). includePrivate \<or> \<not> startswith key ''_'') (props mol)"

text \<open>
  A table (\<^verbatim>\<open>pandas.DataFrame\<close>): row labels, column labels and the rows of cells. An
  axis is either the default \<^verbatim>\<open>RangeIndex\<close> or a list of names. \<open>NaN\<close> is the cell pandas
  fills in where a record has no value for a column.
\<close>

datatype axis = RangeIndex nat | Index "string list"

datatype 'v cell = Val 'v | NaN

record 'c DataFrame =
  index :: axis
  columns :: axis
  rows :: "'c list list"

text \<open>
  A descriptor function of \<^verbatim>\<open>Descriptors.descList\<close>: the molecule, and whether the call
  passes \<^verbatim>\<open>avg=True\<close>.
\<close>

type_synonym 'v descriptor = "RDKitMol \<Rightarrow> bool \<Rightarrow> string + 'v"

text \<open>
  The external libraries, opaque to this module, are the fields of a record:
  \<^item> \<open>descList\<close>: \<^verbatim>\<open>rdkit.Chem.Descriptors.descList\<close>;
  \<^item> \<open>Calculator_pandas\<close>: \<^verbatim>\<open>Calculator(descriptors, ignore_3D=False).pandas\<close> of mordred;
  \<^item> \<open>from_sdf\<close>: \<^verbatim>\<open>padelpy.from_sdf\<close>, as a function of the records of the file it reads;
    it returns one dictionary per record it reports;
  \<^item> \<open>MolToSmiles\<close>: \<^verbatim>\<open>Chem.MolToSmiles\<close>;
  \<^item> \<open>EncodeSECFPMol\<close>: \<^verbatim>\<open>MHFPEncoder(n_permutations, seed).EncodeSECFPMol(mol,
    radius, rings, isomeric, kekulize, min_radius)\<close>, the two constructor arguments first;
  \<^item> \<open>GetMorganFingerprintAsBitVect\<close>: \<^verbatim>\<open>(mol, radius, nBits, useChirality, useFeatures)\<close>;
  \<^item> \<open>RDKFingerprint\<close>: \<^verbatim>\<open>(mol, minPath, maxPath, fpSize, nBitsPerHash, useHs,
    tgtDensity, minSize, branchedPaths, useBondOrder)\<close>;
  \<^item> \<open>GenMACCSKeys\<close>: \<^verbatim>\<open>MACCSkeys.GenMACCSKeys(mol)\<close>.
  A bit vector (\<^verbatim>\<open>ExplicitBitVect\<close>) is a list of bits.
\<close>

record 'v toolkit =
  descList :: "(string \<times> 'v descriptor) list"
  Calculator_pandas :: "RDKitMol list \<Rightarrow> string + 'v cell DataFrame"
  from_sdf :: "RDKitMol list \<Rightarrow> string + (string \<times> 'v) list list"
  MolToSmiles :: "RDKitMol \<Rightarrow> string"
  EncodeSECFPMol :: "int \<Rightarrow> int \<Rightarrow> RDKitMol \<Rightarrow> int \<Rightarrow> bool \<Rightarrow> bool \<Rightarrow> bool \<Rightarrow> int \<Rightarrow> string + bool list"
  GetMorganFingerprintAsBitVect :: "RDKitMol \<Rightarrow> int \<Rightarrow> int \<Rightarrow> bool \<Rightarrow> bool \<Rightarrow> string + bool list"
  RDKFingerprint :: "RDKitMol \<Rightarrow> int \<Rightarrow> int \<Rightarrow> int \<Rightarrow> int \<Rightarrow> bool \<Rightarrow> int \<Rightarrow> int \<Rightarrow> bool \<Rightarrow> bool \<Rightarrow> string + bool list"
  GenMACCSKeys :: "RDKitMol \<Rightarrow> string + bool list"

section \<open>Calls\<close>

text \<open>
  The values this module passes as arguments or stores as attributes.
\<close>

datatype 'v pyobj =
    PyMols "RDKitMol list"
  | PyMol RDKitMol
  | PyBool bool
  | PyInt int
  | PyStr string
  | PyStrs "string list"
  | PyDescList "(string \<times> 'v descriptor) list"

text \<open>
  Binding the arguments of a call to a function \<^verbatim>\<open>def f(p1, ..., pn, **kwargs)\<close>, as
  CPython does it: the positional arguments fill the parameters from the left; each
  keyword argument goes to the parameter of its name, which must not have a value yet,
  or, when no parameter has that name, into \<open>kwargs\<close>; then more positional arguments
  than parameters are an error; then a parameter without a value takes its default or
  is an error. The result is the values of the parameters, in their order, and \<open>kwargs\<close>.
\<close>

fun bind_keywords ::
  "string \<Rightarrow> string list \<Rightarrow> (string \<times> 'a) list \<Rightarrow> (string \<times> 'a) list \<Rightarrow> (string \<times> 'a) list
     \<Rightarrow> error + ((string \<times> 'a) list \<times> (string \<times> 'a) list)" where
  "bind_keywords f params bound kwargs [] = Inr (bound, kwargs)"
| "bind_keywords f params bound kwargs ((k, v) # kws) =
     (if k \<in> set params then
        (if k \<in> set (map fst bound)
         then Inl (TypeError (f @ ''() got multiple values for argument '' @ k))
         else bind_keywords f params (bound @ [(k, v)]) kwargs kws)
      else bind_keywords f params bound (kwargs @ [(k, v)]) kws)"

fun fill_defaults ::
  "string \<Rightarrow> (string \<times> 'a) list \<Rightarrow> (string \<times> 'a) list \<Rightarrow> string list \<Rightarrow> error + 'a list" where
  "fill_defaults f defaults bound [] = Inr []"
| "fill_defaults f defaults bound (p # ps) =
     (case (case map_of bound p of Some v \<Rightarrow> Some v | None \<Rightarrow> map_of defaults p) of
        None \<Rightarrow> Inl (TypeError (f @ ''() missing a required argument: '' @ p))
      | Some v \<Rightarrow>
          (case fill_defaults f defaults bound ps of
             Inl e \<Rightarrow> Inl e
           | Inr vs \<Rightarrow> Inr (v # vs)))"

definition bind_args ::
  "string \<Rightarrow> string list \<Rightarrow> (string \<times> 'a) list \<Rightarrow> 'a list \<Rightarrow> (string \<times> 'a) list
     \<Rightarrow> error + ('a list \<times> (string \<times> 'a) list)" where
  "bind_args f params defaults args kws =
     (case bind_keywords f params (zip params args) [] kws of
        Inl e \<Rightarrow> Inl e
      | Inr (bound, kwargs) \<Rightarrow>
          if length args > length params
          then Inl (TypeError (f @ ''() takes fewer positional arguments than were given''))
          else (case fill_defaults f defaults bound params of
                  Inl e \<Rightarrow> Inl e
                | Inr vs \<Rightarrow> Inr (vs, kwargs)))"

section \<open>Tables\<close>

text \<open>
  \<^verbatim>\<open>pd.DataFrame(rows, columns=names)\<close> for a list of rows: no rows give the empty
  table with these columns; a row whose length is not the number of columns is a
  \<^verbatim>\<open>ValueError\<close>.
\<close>

definition DataFrame_rows :: "'v list list \<Rightarrow> string list \<Rightarrow> error + 'v cell DataFrame" where
  "DataFrame_rows data names =
     (if list_all (\<lambda>r. length r = length names) data
      then Inr \<lparr>index = RangeIndex (length data), columns = Index names, rows = map (map Val) data\<rparr>
      else Inl (ValueError ''the data do not have as many columns as were passed''))"

text \<open>
  \<^verbatim>\<open>pd.DataFrame(records)\<close> for a list of dictionaries: one row per dictionary, in the
  list's order; the columns are the keys in the order they first appear; a key that a
  dictionary lacks gives \<open>NaN\<close>.
\<close>

definition DataFrame_records :: "(string \<times> 'v) list list \<Rightarrow> 'v cell DataFrame" where
  "DataFrame_records records =
     (let names = rev (remdups (rev (concat (map (map fst) records))))
      in \<lparr>index = RangeIndex (length records), columns = Index names,
          rows = map (\<lambda>d. map (\<lambda>c. case map_of d c of Some v \<Rightarrow> Val v | None \<Rightarrow> NaN) names) records\<rparr>)"

text \<open>
  A dictionary keeps its keys in the order of their first insertion; setting a key that
  is present replaces its value in place.
\<close>

fun setitem :: "('k \<times> 'a) list \<Rightarrow> 'k \<Rightarrow> 'a \<Rightarrow> ('k \<times> 'a) list" where
  "setitem [] k v = [(k, v)]"
| "setitem ((k', v') # d) k v = (if k' = k then (k, v) # d else (k', v') # setitem d k v)"

section \<open>The working directory\<close>

text \<open>
  The files of the current working directory that matter here: a structure-data file
  holds the molecule records written to it.
\<close>

type_synonym files = "string \<rightharpoonup> RDKitMol list"

definition SDWriter_write :: "string \<Rightarrow> files \<Rightarrow> RDKitMol \<Rightarrow> files" where
  "SDWriter_write name fs mol =
     fs(name \<mapsto> (case fs name of None \<Rightarrow> [] | Some written \<Rightarrow> written) @ [mol])"

definition os_remove :: "string \<Rightarrow> files \<Rightarrow> error + files" where
  "os_remove name fs =
     (if fs name = None then Inl (FileNotFoundError name) else Inr (fs(name := None)))"

section \<open>Descriptor generation\<close>

text \<open>\<^verbatim>\<open>_rdkit_descriptors_low(mol, desc_list, ipc_avg=True, **kwargs)\<close>: the body.\<close>

definition rdkit_descriptors_low ::
  "RDKitMol \<Rightarrow> (string \<times> 'v descriptor) list \<Rightarrow> bool \<Rightarrow> (string \<times> 'v pyobj) list \<Rightarrow> error + 'v list" where
  "rdkit_descriptors_low mol desc_list ipc_avg kwargs =
     (if ''mol'' \<in> set (map fst kwargs)
      then Inl (DeprecationWarning
        ''Mol is being phased out as a parameter, please pass RDKit mol object instead.'')
      else for_each
        (\<lambda>(desc_name, function).
           if desc_name = ''Ipc'' \<and> ipc_avg then lib (function mol True) else lib (function mol False))
        desc_list)"

text \<open>
  A call of \<^verbatim>\<open>_rdkit_descriptors_low\<close> with positional and keyword arguments. The
  arguments are read at the types the parameters are annotated with; the model reports
  an argument of another type as a \<^verbatim>\<open>TypeError\<close>.
\<close>

definition call_rdkit_descriptors_low ::
  "'v pyobj list \<Rightarrow> (string \<times> 'v pyobj) list \<Rightarrow> error + 'v list" where
  "call_rdkit_descriptors_low args kws =
     (case bind_args ''_rdkit_descriptors_low'' [''mol'', ''desc_list'', ''ipc_avg'']
             [(''ipc_avg'', PyBool True)] args kws of
        Inl e \<Rightarrow> Inl e
      | Inr (vs, kwargs) \<Rightarrow>
          (case vs of
             [PyMol mol, PyDescList desc_list, PyBool ipc_avg] \<Rightarrow>
               rdkit_descriptors_low mol desc_list ipc_avg kwargs
           | _ \<Rightarrow> Inl (TypeError ''_rdkit_descriptors_low(): argument not of the annotated type'')))"

definition mordred_descriptors :: "'v toolkit \<Rightarrow> RDKitMol list \<Rightarrow> error + 'v cell DataFrame" where
  "mordred_descriptors tk mols = lib (Calculator_pandas tk mols)"

text \<open>
  \<^verbatim>\<open>padelpy_descriptors\<close>: the writer creates (or truncates) the temporary file, every
  molecule is written to it, the external tool reads it, the table is built, and the
  file is removed. An exception leaves at once, with the files as they are then.
\<close>

definition padelpy_descriptors ::
  "'v toolkit \<Rightarrow> RDKitMol list \<Rightarrow> files \<Rightarrow> (error + 'v cell DataFrame) \<times> files" where
  "padelpy_descriptors tk mols fs =
     (let written = foldl (SDWriter_write ''padelpy_out_tmp.sdf'') (fs(''padelpy_out_tmp.sdf'' \<mapsto> [])) mols
      in case (case written ''padelpy_out_tmp.sdf'' of
                 None \<Rightarrow> Inl (FileNotFoundError ''padelpy_out_tmp.sdf'')
               | Some records \<Rightarrow> lib (from_sdf tk records)) of
           Inl e \<Rightarrow> (Inl e, written)
         | Inr desc \<Rightarrow>
             (case os_remove ''padelpy_out_tmp.sdf'' written of
                Inl e \<Rightarrow> (Inl e, written)
              | Inr removed \<Rightarrow> (Inr (DataFrame_records desc), removed)))"

text \<open>\<^verbatim>\<open>rdkit_descriptors(mols, use_fragment=True, ipc_avg=True, **kwargs)\<close>: the body.
  The inner call unpacks \<open>kwargs\<close> with one star, so its keys are positional arguments.\<close>

definition rdkit_descriptors ::
  "'v toolkit \<Rightarrow> RDKitMol list \<Rightarrow> bool \<Rightarrow> bool \<Rightarrow> (string \<times> 'v pyobj) list \<Rightarrow> error + 'v cell DataFrame" where
  "rdkit_descriptors tk mols use_fragment ipc_avg kwargs =
     (let desc_list = filter (\<lambda>(descriptor, function). \<not> (\<not> use_fragment \<and> startswith descriptor ''fr_''))
                        (descList tk);
          descriptor_types = map fst desc_list
      in if length descriptor_types \<noteq> length desc_list then Inl AssertionError
         else
           (case for_each
                   (\<lambda>mol. call_rdkit_descriptors_low (PyMol mol # map (\<lambda>(k, v). PyStr k) kwargs)
                            [(''desc_list'', PyDescList desc_list), (''ipc_avg'', PyBool ipc_avg)])
                   mols of
              Inl e \<Rightarrow> Inl e
            | Inr arr_features \<Rightarrow> DataFrame_rows arr_features descriptor_types))"

definition call_rdkit_descriptors ::
  "'v toolkit \<Rightarrow> 'v pyobj list \<Rightarrow> (string \<times> 'v pyobj) list \<Rightarrow> error + 'v cell DataFrame" where
  "call_rdkit_descriptors tk args kws =
     (case bind_args ''rdkit_descriptors'' [''mols'', ''use_fragment'', ''ipc_avg'']
             [(''use_fragment'', PyBool True), (''ipc_avg'', PyBool True)] args kws of
        Inl e \<Rightarrow> Inl e
      | Inr (vs, kwargs) \<Rightarrow>
          (case vs of
             [PyMols mols, PyBool use_fragment, PyBool ipc_avg] \<Rightarrow>
               rdkit_descriptors tk mols use_fragment ipc_avg kwargs
           | _ \<Rightarrow> Inl (TypeError ''rdkit_descriptors(): argument not of the annotated type'')))"

text \<open>
  \<^verbatim>\<open>rdkit_fragment_descriptors\<close>: the dictionary of the descriptors from position 115
  on, one row of their values per molecule in an array of \<open>len(mols)\<close> rows and
  \<open>len(fragments)\<close> columns, and the names of the same slice as the columns. pandas
  refuses an array whose number of columns is not the number of names.
\<close>

definition rdkit_fragment_descriptors :: "'v toolkit \<Rightarrow> RDKitMol list \<Rightarrow> error + 'v cell DataFrame" where
  "rdkit_fragment_descriptors tk mols =
     (let fragments = foldl (\<lambda>d (name, function). setitem d name function) [] (drop 115 (descList tk))
      in case for_each (\<lambda>mol. for_each (\<lambda>(d, function). lib (function mol False)) fragments) mols of
           Inl e \<Rightarrow> Inl e
         | Inr frag_features \<Rightarrow>
             (let feature_names = map fst (drop 115 (descList tk))
              in if length fragments \<noteq> length feature_names
                 then Inl (ValueError ''Shape of passed values does not match the columns'')
                 else Inr \<lparr>index = RangeIndex (length mols), columns = Index feature_names,
                           rows = map (map Val) frag_features\<rparr>))"

text \<open>The attributes of a \<^verbatim>\<open>DescriptorGenerator\<close>; \<^verbatim>\<open>mols\<close> is an attribute of both generator classes.\<close>

record Generator =
  mols :: "RDKitMol list"

record DescriptorGenerator = Generator +
  desc_type :: string
  use_fragment :: bool
  ipc_avg :: bool

text \<open>\<^verbatim>\<open>compute_descriptor(self, **kwargs)\<close>, with the working directory before and after.\<close>

definition compute_descriptor ::
  "'v toolkit \<Rightarrow> DescriptorGenerator \<Rightarrow> (string \<times> 'v pyobj) list \<Rightarrow> files
     \<Rightarrow> (error + 'v cell DataFrame) \<times> files" where
  "compute_descriptor tk self kwargs fs =
     (if lower (desc_type self) = ''mordred'' then (mordred_descriptors tk (mols self), fs)
      else if lower (desc_type self) = ''padel'' then padelpy_descriptors tk (mols self) fs
      else if lower (desc_type self) = ''rdkit'' then
        (call_rdkit_descriptors tk (PyMols (mols self) # map (\<lambda>(k, v). PyStr k) kwargs)
           [(''use_fragment'', PyBool (use_fragment self)), (''ipc_avg'', PyBool (ipc_avg self))], fs)
      else if lower (desc_type self) = ''rdkit_frag'' then
        (rdkit_fragment_descriptors tk (mols self), fs)
      else (Inl (ValueError (''Unknown descriptor type '' @ desc_type self @ ''.'')), fs))"

section \<open>Fingerprint generation\<close>

text \<open>\<^verbatim>\<open>rdkit_fingerprint_low\<close>: the dispatch on the exact spelling of \<open>fp_type\<close>.\<close>

definition rdkit_fingerprint_low ::
  "'v toolkit \<Rightarrow> RDKitMol \<Rightarrow> string \<Rightarrow> int \<Rightarrow> int \<Rightarrow> int \<Rightarrow> int \<Rightarrow> bool \<Rightarrow> bool \<Rightarrow> bool
     \<Rightarrow> error + bool list" where
  "rdkit_fingerprint_low tk mol fp_type n_bits radius min_radius random_seed rings isomeric kekulize =
     (if fp_type = ''SECFP'' then
        lib (EncodeSECFPMol tk n_bits random_seed mol radius rings isomeric kekulize min_radius)
      else if fp_type = ''ECFP'' then
        lib (GetMorganFingerprintAsBitVect tk mol radius n_bits isomeric False)
      else if fp_type = ''Morgan'' then
        lib (GetMorganFingerprintAsBitVect tk mol radius n_bits isomeric True)
      else if fp_type = ''RDKFingerprint'' then
        lib (RDKFingerprint tk mol 1 10 n_bits 2 True 0 128 True True)
      else if fp_type = ''MaCCSKeys'' then
        lib (GenMACCSKeys tk mol)
      else Inl (NotImplementedError (fp_type @ '' not implemented yet.'')))"

text \<open>
  \<^verbatim>\<open>pd.DataFrame(np.array(fps), index=names)\<close>. No vector at all gives an array of
  shape \<open>(0,)\<close>, which pandas reads as no rows of one column. Vectors of one length
  \<open>k\<close> give an array of \<open>k\<close> columns; vectors of different lengths are refused, and
  so is an index whose length is not the number of rows.
\<close>

definition DataFrame_array :: "'c list list \<Rightarrow> string list \<Rightarrow> error + 'c DataFrame" where
  "DataFrame_array fps names =
     (case fps of
        [] \<Rightarrow>
          if names = [] then Inr \<lparr>index = Index [], columns = RangeIndex 1, rows = []\<rparr>
          else Inl (ValueError ''Empty data passed with indices specified.'')
      | fp # _ \<Rightarrow>
          if \<not> list_all (\<lambda>r. length r = length fp) fps
          then Inl (ValueError ''setting an array element with a sequence: inhomogeneous shape'')
          else if length names \<noteq> length fps
          then Inl (ValueError ''Shape of passed values does not match the index'')
          else Inr \<lparr>index = Index names, columns = RangeIndex (length fp), rows = fps\<rparr>)"

text \<open>The attributes of a \<^verbatim>\<open>FingerprintGenerator\<close>, as \<^verbatim>\<open>__init__\<close> sets them.\<close>

record FingerprintGenerator = Generator +
  fp_type :: string
  n_bits :: int
  radius :: int
  min_radius :: int
  random_seed :: int
  rings :: bool
  isomeric :: bool
  kekulize :: bool
  mol_names :: "string list"

text \<open>
  \<^verbatim>\<open>__init__\<close>: the attributes are the arguments, and \<open>mol_names\<close> holds, per molecule,
  its SMILES when \<^verbatim>\<open>mol.GetPropsAsDict().get("_Name")\<close> is \<open>None\<close> and
  \<^verbatim>\<open>mol.GetProp("_Name")\<close> otherwise. \<open>GetPropsAsDict\<close> is called with its defaults.
\<close>

definition FingerprintGenerator_init ::
  "'v toolkit \<Rightarrow> RDKitMol list \<Rightarrow> string \<Rightarrow> int \<Rightarrow> int \<Rightarrow> int \<Rightarrow> int \<Rightarrow> bool \<Rightarrow> bool \<Rightarrow> bool
     \<Rightarrow> error + FingerprintGenerator" where
  "FingerprintGenerator_init tk mols' fp_type' n_bits' radius' min_radius' random_seed' rings'
       isomeric' kekulize' =
     (case for_each
             (\<lambda>mol. if map_of (GetPropsAsDict mol False) ''_Name'' = None
                     then Inr (MolToSmiles tk mol)
                     else GetProp mol ''_Name'')
             mols' of
        Inl e \<Rightarrow> Inl e
      | Inr names \<Rightarrow>
          Inr \<lparr>mols = mols', fp_type = fp_type', n_bits = n_bits', radius = radius',
               min_radius = min_radius', random_seed = random_seed', rings = rings',
               isomeric = isomeric', kekulize = kekulize', mol_names = names\<rparr>)"

text \<open>
  Attribute lookup on a \<^verbatim>\<open>FingerprintGenerator\<close>: the instance dictionary that
  \<^verbatim>\<open>__init__\<close> fills, then the two methods of the class. A name that is in neither
  raises \<^verbatim>\<open>AttributeError\<close>.
\<close>

datatype 'v attribute = Data "'v pyobj" | Method string

definition instance_dict :: "FingerprintGenerator \<Rightarrow> (string \<times> 'v pyobj) list" where
  "instance_dict self =
     [(''mols'', PyMols (mols self)), (''fp_type'', PyStr (fp_type self)),
      (''n_bits'', PyInt (n_bits self)), (''radius'', PyInt (radius self)),
      (''min_radius'', PyInt (min_radius self)), (''random_seed'', PyInt (random_seed self)),
      (''rings'', PyBool (rings self)), (''isomeric'', PyBool (isomeric self)),
      (''kekulize'', PyBool (kekulize self)), (''mol_names'', PyStrs (mol_names self))]"

definition getattr :: "FingerprintGenerator \<Rightarrow> string \<Rightarrow> error + 'v attribute" where
  "getattr self name =
     (case map_of (instance_dict self) name of
        Some v \<Rightarrow> Inr (Data v)
      | None \<Rightarrow>
          if name \<in> set [''compute_fingerprint'', ''rdkit_fingerprint_low''] then Inr (Method name)
          else Inl (AttributeError (''FingerprintGenerator object has no attribute '' @ name)))"

text \<open>
  The text an attribute has inside an f-string. Only a string's text is spelled out here;
  the other values print a text that this module never reads.
\<close>

fun format :: "'v attribute \<Rightarrow> string" where
  "format (Data (PyStr s)) = s"
| "format (Data (PyBool b)) = (if b then ''True'' else ''False'')"
| "format _ = ''<object>''"

text \<open>
  \<^verbatim>\<open>compute_fingerprint\<close>. The message of the last branch reads \<^verbatim>\<open>self.desc_type\<close>,
  so the attribute is looked up before the \<^verbatim>\<open>ValueError\<close> is built.
\<close>

definition compute_fingerprint :: "'v toolkit \<Rightarrow> FingerprintGenerator \<Rightarrow> error + bool DataFrame" where
  "compute_fingerprint tk self =
     (if upper (fp_type self) \<in> set [''SECFP'', ''ECFP'', ''MORGAN'', ''RDKFINGERPRINT'', ''MACCSKEYS'']
      then
        (case for_each
                (\<lambda>mol. rdkit_fingerprint_low tk mol (fp_type self) (n_bits self) (radius self)
                         (min_radius self) (random_seed self) (rings self) (isomeric self)
                         (kekulize self))
                (mols self) of
           Inl e \<Rightarrow> Inl e
         | Inr fps \<Rightarrow> DataFrame_array fps (mol_names self))
      else
        (case (getattr self ''desc_type'' :: error + 'v attribute) of
           Inl e \<Rightarrow> Inl e
         | Inr v \<Rightarrow> Inl (ValueError (format v @ '' is not an supported fingerprint type.''))))"

section \<open>A small toolkit to run the definitions on\<close>

text \<open>
  Stand-ins for the external libraries, with numbers for descriptor values: the
  structure string of a molecule is its SMILES, the encoders return vectors of zeros of
  the size they are asked for (the MACCS keys of RDKit have 167 bits, bit 0 unused; the
  SECFP encoding has its default length 2048), and the external descriptor tool fails
  on a record without structure.
\<close>

definition toy_toolkit :: "int toolkit" where
  "toy_toolkit =
     \<lparr>descList =
        [(''MolWt'', \<lambda>mol avg. Inr (int (length (molblock mol)))),
         (''Ipc'', \<lambda>mol avg. Inr (if avg then 1 else 2)),
         (''fr_ether'', \<lambda>mol avg. Inr (int (length (filter (\<lambda>c. c = CHR ''O'') (molblock mol)))))],
      Calculator_pandas =
        (\<lambda>ms. Inr \<lparr>index = RangeIndex (length ms), columns = Index [''nAtom''],
                    rows = map (\<lambda>m. [Val (int (length (molblock m)))]) ms\<rparr>),
      from_sdf =
        (\<lambda>records. if list_ex (\<lambda>m. molblock m = []) records then Inl ''PaDEL-Descriptor failed''
                    else Inr (map (\<lambda>m. [(''nAtoms'', int (length (molblock m)))]) records)),
      MolToSmiles = molblock,
      EncodeSECFPMol = (\<lambda>n_permutations seed mol r rngs isom kek min_r. Inr (replicate 2048 False)),
      GetMorganFingerprintAsBitVect = (\<lambda>mol r nBits chiral feats. Inr (replicate (nat nBits) False)),
      RDKFingerprint =
        (\<lambda>mol minPath maxPath fpSize nBitsPerHash useHs tgtDensity minSize branched bondOrder.
           Inr (replicate (nat fpSize) False)),
      GenMACCSKeys = (\<lambda>mol. Inr (replicate 167 False))\<rparr>"

definition unreadable :: RDKitMol where
  "unreadable = \<lparr>props = [], molblock = []\<rparr>"

definition ethanol :: RDKitMol where
  "ethanol = \<lparr>props = [], molblock = ''CCO''\<rparr>"

definition aspirin :: RDKitMol where
  "aspirin = \<lparr>props = [(''_Name'', ''aspirin'')], molblock = ''CC(=O)Oc1ccccc1C(=O)O''\<rparr>"

text \<open>
  The same toolkit with a descriptor list as long as RDKit's, so that the slice from
  position 115 on is not empty: two fragment counts after 115 other entries.
\<close>

definition toy_fragment_toolkit :: "int toolkit" where
  "toy_fragment_toolkit =
     toy_toolkit
       \<lparr>descList :=
          replicate 115 (''MolWt'', \<lambda>mol avg. Inr (int (length (molblock mol))))
          @ [(''fr_ether'', \<lambda>mol avg. Inr (int (length (filter (\<lambda>c. c = CHR ''O'') (molblock mol))))),
             (''fr_ketone'', \<lambda>mol avg. Inr (int (length (filter (\<lambda>c. c = CHR ''='') (molblock mol)))))]\<rparr>"

section \<open>What is assumed of the external libraries\<close>

text \<open>
  What the descriptor tools are taken to do. The table of mordred has one row per
  molecule it is given, in the order given, a row depending on its molecule only. The
  PaDEL tool returns one dictionary per record of the file, in the order of the file,
  a dictionary depending on its record only, all with the same keys in the same order.
\<close>

definition tools_rowwise :: "'v toolkit \<Rightarrow> bool" where
  "tools_rowwise tk \<longleftrightarrow>
     (\<exists>row. \<forall>ms df. Calculator_pandas tk ms = Inr df \<longrightarrow>
              index df = RangeIndex (length ms) \<and> rows df = map row ms)
   \<and> (\<exists>record names. \<forall>ms desc. from_sdf tk ms = Inr desc \<longrightarrow>
              desc = map record ms \<and> list_all (\<lambda>m. map fst (record m) = names) ms)"

text \<open>
  The external calls a selector leads to return, rather than raise, on a molecule list:
  the tool's one call for \<open>mordred\<close> and \<open>padel\<close>; every descriptor function of the list
  in use on every molecule for \<open>rdkit\<close> (the one named \<open>Ipc\<close> is called with \<open>avg=True\<close>
  when \<open>ipc_avg\<close> is set); for \<open>rdkit_frag\<close> every function of the slice from position
  115 on, whose names are different from each other.
\<close>

definition returned :: "string + 'a \<Rightarrow> bool" where
  "returned r = (case r of Inl msg \<Rightarrow> False | Inr x \<Rightarrow> True)"

definition backend_succeeds :: "'v toolkit \<Rightarrow> string \<Rightarrow> bool \<Rightarrow> bool \<Rightarrow> RDKitMol list \<Rightarrow> bool" where
  "backend_succeeds tk selector with_fragments avg ms =
     (if lower selector = ''mordred'' then returned (Calculator_pandas tk ms)
      else if lower selector = ''padel'' then returned (from_sdf tk ms)
      else if lower selector = ''rdkit'' then
        list_all
          (\<lambda>mol. list_all (\<lambda>(name, function). returned (function mol (name = ''Ipc'' \<and> avg)))
                   (filter (\<lambda>(descriptor, function). \<not> (\<not> with_fragments \<and> startswith descriptor ''fr_''))
                      (descList tk)))
          ms
      else if lower selector = ''rdkit_frag'' then
        distinct (map fst (drop 115 (descList tk)))
        \<and> list_all
            (\<lambda>mol. list_all (\<lambda>(name, function). returned (function mol False)) (drop 115 (descList tk)))
            ms
      else False)"


section \<open>Auxiliary facts\<close>

subsection \<open>Case conversion of the selectors used below\<close>

lemma lower_Foo: "lower ''Foo'' = ''foo''"
  by (simp add: lower_def lower_char_def ascii_uppercase_def ascii_lowercase_def)

lemma lower_RDKit: "lower ''RDKit'' = ''rdkit''"
  by (simp add: lower_def lower_char_def ascii_uppercase_def ascii_lowercase_def)

lemma lower_Mordred: "lower ''Mordred'' = ''mordred''"
  by (simp add: lower_def lower_char_def ascii_uppercase_def ascii_lowercase_def)

lemma lower_padel: "lower ''padel'' = ''padel''"
  by (simp add: lower_def lower_char_def ascii_uppercase_def ascii_lowercase_def)

lemma lower_rdkit_frag: "lower ''rdkit_frag'' = ''rdkit_frag''"
  by (simp add: lower_def lower_char_def ascii_uppercase_def ascii_lowercase_def)

lemma upper_E3FP: "upper ''E3FP'' = ''E3FP''"
  by (simp add: upper_def upper_char_def ascii_uppercase_def ascii_lowercase_def)

lemma upper_morgan: "upper ''morgan'' = ''MORGAN''"
  by (simp add: upper_def upper_char_def ascii_uppercase_def ascii_lowercase_def)

lemma upper_ECFP: "upper ''ECFP'' = ''ECFP''"
  by (simp add: upper_def upper_char_def ascii_uppercase_def ascii_lowercase_def)


subsection \<open>Comprehensions\<close>

lemma for_each_length: "for_each f xs = Inr ys \<Longrightarrow> length ys = length xs"
  by (induction xs arbitrary: ys) (auto split: sum.splits)

lemma for_each_Inr_map:
  "for_each f xs = Inr ys \<Longrightarrow> ys = map (\<lambda>x. case f x of Inr y \<Rightarrow> y | Inl e \<Rightarrow> d) xs"
  by (induction xs arbitrary: ys) (auto split: sum.splits)

lemma for_each_Inl: "for_each f xs = Inl e \<Longrightarrow> \<exists>x\<in>set xs. f x = Inl e"
  by (induction xs) (auto split: sum.splits)

lemma for_each_all:
  "for_each f xs = Inr ys \<Longrightarrow> y \<in> set ys \<Longrightarrow> \<exists>x\<in>set xs. f x = Inr y"
  by (induction xs arbitrary: ys) (auto split: sum.splits)

lemma for_each_total: "for_each (\<lambda>x. Inr (f x)) xs = Inr (map f xs)"
  by (induction xs) simp_all

lemma for_each_filter:
  "for_each f xs = Inr ys \<Longrightarrow>
     for_each f (filter P xs) = Inr (map snd (filter (\<lambda>(x, y). P x) (zip xs ys)))"
  by (induction xs arbitrary: ys) (auto split: sum.splits)

lemma for_each_map:
  "for_each f xs = Inr ys \<Longrightarrow> (\<And>x y. x \<in> set xs \<Longrightarrow> f x = Inr y \<Longrightarrow> g x = Inr (h y)) \<Longrightarrow>
     for_each g xs = Inr (map h ys)"
  by (induction xs arbitrary: ys) (auto split: sum.splits)

lemma for_each_returns:
  "list_all (\<lambda>x. \<exists>y. f x = Inr y) xs \<Longrightarrow> \<exists>ys. for_each f xs = Inr ys"
  by (induction xs) auto

lemma returned_lib: "returned r \<Longrightarrow> \<exists>y. lib r = Inr y"
  by (cases r) (simp_all add: returned_def lib_def)

subsection \<open>Dictionaries\<close>

lemma setitem_fresh: "k \<notin> set (map fst d) \<Longrightarrow> setitem d k v = d @ [(k, v)]"
  by (induction d) auto

lemma dict_of_distinct:
  "distinct (map fst (acc @ xs)) \<Longrightarrow>
     foldl (\<lambda>d (name, function). setitem d name function) acc xs = acc @ xs"
proof (induction xs arbitrary: acc)
  case Nil
  then show ?case by simp
next
  case (Cons x xs)
  obtain k v where x: "x = (k, v)" by (cases x)
  from Cons.prems have fresh: "k \<notin> set (map fst acc)" by (auto simp: x)
  from Cons.prems have "distinct (map fst ((acc @ [(k, v)]) @ xs))" by (simp add: x)
  from Cons.IH [OF this] show ?case
    by (simp add: x setitem_fresh [OF fresh])
qed

subsection \<open>Argument binding\<close>

text \<open>A keyword that names a parameter never reaches \<open>kwargs\<close>.\<close>

lemma bind_keywords_kwargs:
  "bind_keywords f params bound kwargs kws = Inr (b, kw') \<Longrightarrow>
     set (map fst kw') \<subseteq> set (map fst kwargs) \<union> (set (map fst kws) - set params)"
proof (induction kws arbitrary: bound kwargs)
  case Nil
  then show ?case by simp
next
  case (Cons kv kws)
  obtain k v where kv: "kv = (k, v)" by (cases kv)
  show ?case
  proof (cases "k \<in> set params")
    case True
    with Cons.prems kv have "bind_keywords f params (bound @ [(k, v)]) kwargs kws = Inr (b, kw')"
      by (simp split: if_splits)
    from Cons.IH [OF this] show ?thesis by (auto simp: kv)
  next
    case False
    with Cons.prems kv have "bind_keywords f params bound (kwargs @ [(k, v)]) kws = Inr (b, kw')"
      by simp
    from Cons.IH [OF this] show ?thesis using False by (auto simp: kv)
  qed
qed

lemma bind_args_kwargs:
  assumes "bind_args f params defaults args kws = Inr (vs, kwargs)"
  shows "set (map fst kwargs) \<inter> set params = {}"
proof -
  from assms obtain bound where
    "bind_keywords f params (zip params args) [] kws = Inr (bound, kwargs)"
    by (auto simp: bind_args_def split: sum.splits prod.splits if_splits)
  from bind_keywords_kwargs [OF this] show ?thesis
    by auto
qed

text \<open>Binding fails with a \<open>TypeError\<close> only.\<close>

lemma bind_keywords_TypeError:
  "bind_keywords f params bound kwargs kws = Inl e \<Longrightarrow> \<exists>msg. e = TypeError msg"
  by (induction f params bound kwargs kws rule: bind_keywords.induct) (auto split: if_splits)

lemma fill_defaults_TypeError:
  "fill_defaults f defaults bound ps = Inl e \<Longrightarrow> \<exists>msg. e = TypeError msg"
  by (induction ps) (auto split: option.splits sum.splits)

lemma bind_args_TypeError:
  "bind_args f params defaults args kws = Inl e \<Longrightarrow> \<exists>msg. e = TypeError msg"
  by (auto simp: bind_args_def split: sum.splits prod.splits if_splits
           dest: bind_keywords_TypeError fill_defaults_TypeError)

text \<open>A keyword for a parameter that already has a value is refused.\<close>

lemma bind_keywords_twice:
  "k \<in> set params \<Longrightarrow> k \<in> set (map fst bound) \<Longrightarrow> k \<in> set (map fst kws) \<Longrightarrow>
     \<exists>msg. bind_keywords f params bound kwargs kws = Inl (TypeError msg)"
proof (induction kws arbitrary: bound kwargs)
  case Nil
  then show ?case by simp
next
  case (Cons kv kws)
  obtain k' v where kv: "kv = (k', v)" by (cases kv)
  show ?case
  proof (cases "k' = k")
    case True
    with Cons.prems show ?thesis by (simp add: kv)
  next
    case False
    with Cons.prems have rest: "k \<in> set (map fst kws)" by (auto simp: kv)
    have "\<exists>msg. bind_keywords f params (bound @ [(k', v)]) kwargs kws = Inl (TypeError msg)"
      using Cons.IH [of "bound @ [(k', v)]" kwargs] Cons.prems(1,2) rest by simp
    moreover have "\<exists>msg. bind_keywords f params bound (kwargs @ [(k', v)]) kws = Inl (TypeError msg)"
      using Cons.IH [of bound "kwargs @ [(k', v)]"] Cons.prems(1,2) rest by simp
    ultimately show ?thesis by (simp add: kv)
  qed
qed

lemma call_rdkit_descriptors_plain:
  "call_rdkit_descriptors tk [PyMols ms] [(''use_fragment'', PyBool uf), (''ipc_avg'', PyBool ia)]
     = rdkit_descriptors tk ms uf ia []"
  by (simp add: call_rdkit_descriptors_def bind_args_def)

lemma call_rdkit_descriptors_low_plain:
  "call_rdkit_descriptors_low [PyMol m] [(''desc_list'', PyDescList dl), (''ipc_avg'', PyBool ia)]
     = rdkit_descriptors_low m dl ia []"
  by (simp add: call_rdkit_descriptors_low_def bind_args_def)

lemma call_rdkit_descriptors_low_star:
  "kwargs \<noteq> [] \<Longrightarrow>
   call_rdkit_descriptors_low (PyMol m # map (\<lambda>(k, v). PyStr k) kwargs)
       [(''desc_list'', PyDescList dl), (''ipc_avg'', PyBool ia)]
     = Inl (TypeError ''_rdkit_descriptors_low() got multiple values for argument desc_list'')"
  by (cases kwargs) (auto simp add: call_rdkit_descriptors_low_def bind_args_def)

subsection \<open>Tables built from dictionaries\<close>

lemma first_keys_absorb:
  "set ys \<subseteq> set xs \<Longrightarrow> rev (remdups (rev (xs @ ys))) = rev (remdups (rev xs))"
  by (simp add: remdups_append filter_empty_conv subset_iff)

lemma first_keys_same:
  "xss \<noteq> [] \<Longrightarrow> list_all (\<lambda>xs. xs = names) xss \<Longrightarrow>
     rev (remdups (rev (concat xss))) = rev (remdups (rev names))"
proof (cases xss)
  case Nil
  assume "xss \<noteq> []"
  with Nil show ?thesis by simp
next
  case (Cons xs rest)
  assume "list_all (\<lambda>xs. xs = names) xss"
  then have "xs = names" and "set (concat rest) \<subseteq> set names"
    by (auto simp: Cons list_all_iff)
  then show ?thesis
    by (simp add: Cons first_keys_absorb del: rev_append)
qed

lemma DataFrame_records_rows:
  assumes "list_all (\<lambda>m. map fst (record m) = names) ms"
  shows "rows (DataFrame_records (map record ms))
           = map (\<lambda>m. map (\<lambda>c. case map_of (record m) c of Some v \<Rightarrow> Val v | None \<Rightarrow> NaN)
                         (rev (remdups (rev names)))) ms"
proof (cases "ms = []")
  case True
  then show ?thesis by (simp add: DataFrame_records_def)
next
  case False
  have "list_all (\<lambda>xs. xs = names) (map (map fst) (map record ms))"
    using assms by (simp add: list_all_iff)
  moreover have "map (map fst) (map record ms) \<noteq> []"
    using False by simp
  ultimately have "rev (remdups (rev (concat (map (map fst) (map record ms)))))
                     = rev (remdups (rev names))"
    by (rule first_keys_same [rotated])
  then show ?thesis
    by (simp add: DataFrame_records_def Let_def)
qed

subsection \<open>The temporary file\<close>

lemma written_records:
  "foldl (SDWriter_write name) (fs(name \<mapsto> acc)) ms = fs(name \<mapsto> acc @ ms)"
  by (induction ms arbitrary: acc) (simp_all add: SDWriter_write_def)

lemma padelpy_descriptors_success:
  assumes "padelpy_descriptors tk ms fs = (Inr df, fs')"
  shows "\<exists>desc. from_sdf tk ms = Inr desc \<and> df = DataFrame_records desc
           \<and> fs' = fs(''padelpy_out_tmp.sdf'' := None)"
  using assms
  by (auto simp: padelpy_descriptors_def Let_def written_records [of _ _ "[]", simplified] lib_def
        os_remove_def split: sum.splits if_splits)

lemma padelpy_descriptors_returns:
  assumes "from_sdf tk ms = Inr desc"
  shows "padelpy_descriptors tk ms fs
           = (Inr (DataFrame_records desc), fs(''padelpy_out_tmp.sdf'' := None))"
  using assms
  by (simp add: padelpy_descriptors_def Let_def written_records [of _ _ "[]", simplified] lib_def
        os_remove_def)

subsection \<open>The small toolkit meets the assumptions\<close>

lemma toy_rowwise: "tools_rowwise toy_toolkit"
  unfolding tools_rowwise_def
proof (intro conjI)
  show "\<exists>row. \<forall>ms df. Calculator_pandas toy_toolkit ms = Inr df \<longrightarrow>
              index df = RangeIndex (length ms) \<and> rows df = map row ms"
    by (rule exI [of _ "\<lambda>m. [Val (int (length (molblock m)))]"]) (auto simp: toy_toolkit_def)
  show "\<exists>record names. \<forall>ms desc. from_sdf toy_toolkit ms = Inr desc \<longrightarrow>
              desc = map record ms \<and> list_all (\<lambda>m. map fst (record m) = names) ms"
    by (rule exI [of _ "\<lambda>m. [(''nAtoms'', int (length (molblock m)))]"], rule exI [of _ "[''nAtoms'']"])
       (auto simp: toy_toolkit_def list_all_iff split: if_splits)
qed

lemma toy_fragment_rowwise: "tools_rowwise toy_fragment_toolkit"
  using toy_rowwise by (simp add: tools_rowwise_def toy_fragment_toolkit_def)


section \<open>Descriptor generation: the selector\<close>

text \<open>
  C7. A descriptor generator whose selector, lowercased, is none of \<open>mordred\<close>, \<open>padel\<close>,
  \<open>rdkit\<close>, \<open>rdkit_frag\<close> raises a \<open>ValueError\<close> whose message contains the selector as
  it was given; no table is returned and the working directory is untouched.
\<close>

theorem compute_descriptor_unknown_selector:
  assumes "lower (desc_type self) \<notin> {''mordred'', ''padel'', ''rdkit'', ''rdkit_frag''}"
  shows "compute_descriptor tk self kwargs fs =
           (Inl (ValueError (''Unknown descriptor type '' @ desc_type self @ ''.'')), fs)"
  using assms by (simp add: compute_descriptor_def)

theorem compute_descriptor_unknown_selector_witness:
  "lower ''Foo'' \<notin> {''mordred'', ''padel'', ''rdkit'', ''rdkit_frag''}
   \<and> compute_descriptor toy_toolkit
        \<lparr>mols = [ethanol], desc_type = ''Foo'', use_fragment = True, ipc_avg = True\<rparr> [] Map.empty
      = (Inl (ValueError ''Unknown descriptor type Foo.''), Map.empty)"
proof -
  have h: "lower (desc_type \<lparr>mols = [ethanol], desc_type = ''Foo'', use_fragment = True, ipc_avg = True\<rparr>)
             \<notin> {''mordred'', ''padel'', ''rdkit'', ''rdkit_frag''}"
    by (simp add: lower_Foo)
  show ?thesis
    using h compute_descriptor_unknown_selector [OF h, of toy_toolkit "[]" Map.empty]
    by simp
qed

text \<open>
  C10. With the selector \<open>rdkit\<close> and at least one extra keyword argument,
  \<open>compute_descriptor\<close> passes the keys of \<open>kwargs\<close> as positional arguments of
  \<open>rdkit_descriptors\<close>, after the molecule list. The first key lands on the parameter
  \<open>use_fragment\<close>, which is also passed by keyword, so the call raises a \<open>TypeError\<close>
  and no descriptor is computed.
\<close>

theorem compute_descriptor_star_kwargs:
  assumes "lower (desc_type self) = ''rdkit''" and "kwargs \<noteq> []"
  shows "compute_descriptor tk self kwargs fs =
           (Inl (TypeError ''rdkit_descriptors() got multiple values for argument use_fragment''), fs)"
proof -
  obtain k v rest where kw: "kwargs = (k, v) # rest"
    using assms(2) by (cases kwargs) auto
  show ?thesis
    using assms(1) by (simp add: compute_descriptor_def call_rdkit_descriptors_def bind_args_def kw)
qed

theorem compute_descriptor_star_kwargs_witness:
  "lower ''RDKit'' = ''rdkit''
   \<and> compute_descriptor toy_toolkit
        \<lparr>mols = [ethanol], desc_type = ''RDKit'', use_fragment = True, ipc_avg = True\<rparr>
        [(''n_jobs'', PyInt 2)] Map.empty
      = (Inl (TypeError ''rdkit_descriptors() got multiple values for argument use_fragment''),
         Map.empty)"
proof -
  have h: "lower (desc_type \<lparr>mols = [ethanol], desc_type = ''RDKit'', use_fragment = True, ipc_avg = True\<rparr>)
             = ''rdkit''"
    by (simp add: lower_RDKit)
  have k: "[(''n_jobs'', PyInt 2 :: int pyobj)] \<noteq> []"
    by simp
  show ?thesis
    using compute_descriptor_star_kwargs [OF h k, of toy_toolkit Map.empty]
    by (simp add: lower_RDKit)
qed

section \<open>The legacy key of the low-level descriptor routine\<close>



subsection \<open>How a call fills the dictionary\<close>

text \<open>
  \<open>mol\<close> is also the name of the first parameter. A keyword argument \<open>mol\<close> of a call is
  therefore bound to that parameter and does not enter \<open>kwargs\<close>: passed alone it is the
  molecule whose features are computed, passed together with a positional molecule it
  is a \<open>TypeError\<close>, and no call written with positional and keyword arguments ends in
  the \<open>DeprecationWarning\<close>.
\<close>

lemma rdkit_descriptors_low_errors:
  assumes "''mol'' \<notin> set (map fst kwargs)"
  shows "rdkit_descriptors_low mol dl ia kwargs \<noteq> Inl (DeprecationWarning msg)"
proof
  assume "rdkit_descriptors_low mol dl ia kwargs = Inl (DeprecationWarning msg)"
  with assms have "for_each (\<lambda>(desc_name, function).
           if desc_name = ''Ipc'' \<and> ia then lib (function mol True) else lib (function mol False)) dl
         = Inl (DeprecationWarning msg)"
    by (simp add: rdkit_descriptors_low_def)
  from for_each_Inl [OF this] show False
    by (auto simp: lib_def split: if_splits sum.splits)
qed

lemma call_rdkit_descriptors_low_never_deprecation:
  "call_rdkit_descriptors_low args kws \<noteq> Inl (DeprecationWarning msg)"
proof (cases "bind_args ''_rdkit_descriptors_low'' [''mol'', ''desc_list'', ''ipc_avg'']
             [(''ipc_avg'', PyBool True)] args kws")
  case (Inl e)
  then show ?thesis
    using bind_args_TypeError [OF Inl] by (auto simp: call_rdkit_descriptors_low_def)
next
  case (Inr r)
  obtain vs kwargs' where r: "r = (vs, kwargs')" by (cases r)
  have "''mol'' \<notin> set (map fst kwargs')"
    using bind_args_kwargs [OF Inr [unfolded r]] by auto
  then show ?thesis
    using rdkit_descriptors_low_errors [of kwargs']
    by (auto simp: call_rdkit_descriptors_low_def Inr r split: list.splits pyobj.splits)
qed

lemma call_rdkit_descriptors_low_mol_twice:
  assumes "args \<noteq> []" and "''mol'' \<in> set (map fst kws)"
  shows "\<exists>m. call_rdkit_descriptors_low args kws = Inl (TypeError m)"
proof -
  obtain a rest where args: "args = a # rest"
    using assms(1) by (cases args) auto
  have "\<exists>m. bind_keywords ''_rdkit_descriptors_low'' [''mol'', ''desc_list'', ''ipc_avg'']
               (zip [''mol'', ''desc_list'', ''ipc_avg''] args) [] kws = Inl (TypeError m)"
    using assms(2) by (intro bind_keywords_twice [of "''mol''"]) (simp_all add: args)
  then show ?thesis
    by (auto simp: call_rdkit_descriptors_low_def bind_args_def)
qed

lemma legacy_keyword_binds_parameter:
  "call_rdkit_descriptors_low [] [(''mol'', PyMol mol), (''desc_list'', PyDescList desc_list)]
     = rdkit_descriptors_low mol desc_list True []"
  by (simp add: call_rdkit_descriptors_low_def bind_args_def)

lemma legacy_keyword_features:
  "call_rdkit_descriptors_low []
     [(''desc_list'', PyDescList (descList toy_toolkit)), (''mol'', PyMol ethanol)] = Inr [3, 1, 1]"
  by (simp add: call_rdkit_descriptors_low_def bind_args_def rdkit_descriptors_low_def toy_toolkit_def
        ethanol_def lib_def)

section \<open>The descriptor tables\<close>

lemma keep_all: "filter (\<lambda>(descriptor, function). \<not> (\<not> True \<and> Q descriptor)) xs = xs"
  by (induction xs) auto

lemma zip_names_cells:
  "length dl = length r \<Longrightarrow>
   map (Val \<circ> snd) (filter (\<lambda>(x, y). \<not> Q (fst x)) (zip dl r))
     = map snd (filter (\<lambda>(n, c). \<not> Q n) (zip (map fst dl) (map Val r)))"
  by (induction dl r rule: list_induct2) auto

text \<open>
  C4. Whenever \<open>rdkit_descriptors\<close> returns a table with \<open>use_fragment=True\<close>, and the
  descriptor list has a name starting with \<open>fr_\<close>, it returns a table with
  \<open>use_fragment=False\<close> on the same molecules: its columns are those of the first table
  without the names starting with \<open>fr_\<close>, in the same order, a strict subset; the rows
  are labelled the same; and each row is the row of the first table without the cells
  of the columns removed.
\<close>

theorem rdkit_descriptors_without_fragments:
  assumes T: "rdkit_descriptors tk ms True ia kwargs = Inr dfT"
    and fr: "list_ex (\<lambda>(descriptor, function). startswith descriptor ''fr_'') (descList tk)"
  shows "\<exists>dfF namesT.
           rdkit_descriptors tk ms False ia kwargs = Inr dfF
         \<and> columns dfT = Index namesT
         \<and> columns dfF = Index (filter (\<lambda>n. \<not> startswith n ''fr_'') namesT)
         \<and> set (filter (\<lambda>n. \<not> startswith n ''fr_'') namesT) \<subset> set namesT
         \<and> index dfF = index dfT
         \<and> rows dfF = map (\<lambda>row. map snd (filter (\<lambda>(n, c). \<not> startswith n ''fr_'') (zip namesT row)))
                         (rows dfT)"
proof -
  let ?Q = "\<lambda>n. startswith n ''fr_''"
  let ?dl = "descList tk"
  let ?dlF = "filter (\<lambda>d. \<not> ?Q (fst d)) ?dl"
  let ?call = "\<lambda>dl mol. call_rdkit_descriptors_low (PyMol mol # map (\<lambda>(k, v). PyStr k) kwargs)
                            [(''desc_list'', PyDescList dl), (''ipc_avg'', PyBool ia)]"
  let ?h = "\<lambda>r. map snd (filter (\<lambda>(x, y). \<not> ?Q (fst x)) (zip ?dl r))"
  from T obtain arrT where arrT: "for_each (?call ?dl) ms = Inr arrT"
    and dfT: "DataFrame_rows arrT (map fst ?dl) = Inr dfT"
    by (auto simp: rdkit_descriptors_def Let_def keep_all split: sum.splits)
  have lenT: "r \<in> set arrT \<Longrightarrow> length ?dl = length r" for r
    using dfT by (auto simp: DataFrame_rows_def list_all_iff split: if_splits)
  have step: "?call ?dlF m = Inr (?h y)" if "m \<in> set ms" "?call ?dl m = Inr y" for m y
  proof (cases "kwargs = []")
    case True
    with that(2) have "for_each (\<lambda>(desc_name, function).
           if desc_name = ''Ipc'' \<and> ia then lib (function m True) else lib (function m False)) ?dl = Inr y"
      by (simp add: call_rdkit_descriptors_low_plain rdkit_descriptors_low_def)
    from for_each_filter [OF this, of "\<lambda>d. \<not> ?Q (fst d)"] True show ?thesis
      by (simp add: call_rdkit_descriptors_low_plain rdkit_descriptors_low_def)
  next
    case False
    with that(2) show ?thesis by (simp add: call_rdkit_descriptors_low_star)
  qed
  have arrF: "for_each (?call ?dlF) ms = Inr (map ?h arrT)"
    using for_each_map [OF arrT, of "?call ?dlF" ?h] step by blast
  have lenF: "length (?h r) = length ?dlF" if "r \<in> set arrT" for r
  proof -
    from for_each_all [OF arrT that] obtain m where m: "m \<in> set ms" "?call ?dl m = Inr r" by blast
    from step [OF m] have "?call ?dlF m = Inr (?h r)" .
    then have "kwargs = []" "rdkit_descriptors_low m ?dlF ia [] = Inr (?h r)"
      by (cases "kwargs = []"; simp add: call_rdkit_descriptors_low_plain call_rdkit_descriptors_low_star)+
    then show ?thesis
      by (auto simp: rdkit_descriptors_low_def dest: for_each_length)
  qed
  let ?dfF = "\<lparr>index = RangeIndex (length arrT), columns = Index (map fst ?dlF),
                rows = map (map Val) (map ?h arrT)\<rparr>"
  have F: "rdkit_descriptors tk ms False ia kwargs = Inr ?dfF"
  proof -
    have dl: "filter (\<lambda>(descriptor, function). \<not> (\<not> False \<and> ?Q descriptor)) ?dl = ?dlF"
      by (simp add: case_prod_unfold)
    show ?thesis
      unfolding rdkit_descriptors_def Let_def dl
      using arrF lenF by (simp add: DataFrame_rows_def list_all_iff)
  qed
  have colsT: "columns dfT = Index (map fst ?dl)" and idxT: "index dfT = RangeIndex (length arrT)"
    and rowsT: "rows dfT = map (map Val) arrT"
    using dfT by (auto simp: DataFrame_rows_def split: if_splits)
  have names: "map fst ?dlF = filter (\<lambda>n. \<not> ?Q n) (map fst ?dl)"
    by (simp add: filter_map comp_def)
  from fr obtain d where d: "d \<in> set ?dl" "?Q (fst d)"
    by (auto simp: list_ex_iff)
  then have strict: "set (filter (\<lambda>n. \<not> ?Q n) (map fst ?dl)) \<subset> set (map fst ?dl)"
    by force
  have rowsF: "map (map Val) (map ?h arrT)
      = map (\<lambda>row. map snd (filter (\<lambda>(n, c). \<not> ?Q n) (zip (map fst ?dl) row))) (rows dfT)"
    by (simp add: rowsT zip_names_cells [where Q = "\<lambda>n. startswith n ''fr_''"] lenT)
  show ?thesis
    using F colsT idxT names strict rowsF by (intro exI [of _ ?dfF] exI [of _ "map fst ?dl"]) simp
qed

lemma toy_with_fragments:
  "rdkit_descriptors toy_toolkit [aspirin, ethanol] True True []
     = Inr \<lparr>index = RangeIndex 2, columns = Index [''MolWt'', ''Ipc'', ''fr_ether''],
            rows = [[Val 21, Val 1, Val 4], [Val 3, Val 1, Val 1]]\<rparr>"
  by (simp add: rdkit_descriptors_def call_rdkit_descriptors_low_plain rdkit_descriptors_low_def
        toy_toolkit_def startswith_def lib_def DataFrame_rows_def aspirin_def ethanol_def)

lemma toy_has_fragment:
  "list_ex (\<lambda>(descriptor, function). startswith descriptor ''fr_'') (descList toy_toolkit)"
  by (simp add: toy_toolkit_def startswith_def)

theorem rdkit_descriptors_without_fragments_witness:
  "rdkit_descriptors toy_toolkit [aspirin, ethanol] True True []
     = Inr \<lparr>index = RangeIndex 2, columns = Index [''MolWt'', ''Ipc'', ''fr_ether''],
            rows = [[Val 21, Val 1, Val 4], [Val 3, Val 1, Val 1]]\<rparr>
   \<and> list_ex (\<lambda>(descriptor, function). startswith descriptor ''fr_'') (descList toy_toolkit)
   \<and> (\<exists>dfF. rdkit_descriptors toy_toolkit [aspirin, ethanol] False True [] = Inr dfF
          \<and> columns dfF = Index [''MolWt'', ''Ipc'']
          \<and> index dfF = RangeIndex 2
          \<and> rows dfF = [[Val 21, Val 1], [Val 3, Val 1]])"
proof -
  let ?dfT = "\<lparr>index = RangeIndex 2, columns = Index [''MolWt'', ''Ipc'', ''fr_ether''],
                rows = [[Val (21::int), Val 1, Val 4], [Val 3, Val 1, Val 1]]\<rparr>"
  from rdkit_descriptors_without_fragments [OF toy_with_fragments toy_has_fragment]
  obtain dfF namesT where F: "rdkit_descriptors toy_toolkit [aspirin, ethanol] False True [] = Inr dfF"
    and n: "columns ?dfT = Index namesT"
    and c: "columns dfF = Index (filter (\<lambda>n. \<not> startswith n ''fr_'') namesT)"
    and i: "index dfF = index ?dfT"
    and r: "rows dfF = map (\<lambda>row. map snd (filter (\<lambda>(n, c). \<not> startswith n ''fr_'') (zip namesT row)))
                  (rows ?dfT)"
    by blast
  from n have namesT: "namesT = [''MolWt'', ''Ipc'', ''fr_ether'']"
    by simp
  have c': "columns dfF = Index [''MolWt'', ''Ipc'']"
    using c by (simp add: namesT startswith_def)
  have r': "rows dfF = [[Val 21, Val 1], [Val 3, Val 1]]"
    using r by (simp add: namesT startswith_def)
  have i': "index dfF = RangeIndex 2"
    using i by simp
  have "\<exists>dfF. rdkit_descriptors toy_toolkit [aspirin, ethanol] False True [] = Inr dfF
          \<and> columns dfF = Index [''MolWt'', ''Ipc'']
          \<and> index dfF = RangeIndex 2
          \<and> rows dfF = [[Val 21, Val 1], [Val 3, Val 1]]"
    using F c' i' r' by blast
  with toy_with_fragments toy_has_fragment show ?thesis
    by (intro conjI)
qed

subsection \<open>Every table returned has the rows of its molecules\<close>

lemma rows_of_returned_table:
  assumes "tools_rowwise tk" and "lower dt \<in> {''mordred'', ''padel'', ''rdkit'', ''rdkit_frag''}"
  shows "\<exists>row. \<forall>ms kwargs fs df fs'.
           compute_descriptor tk \<lparr>mols = ms, desc_type = dt, use_fragment = uf, ipc_avg = ia\<rparr> kwargs fs
             = (Inr df, fs')
           \<longrightarrow> index df = RangeIndex (length ms) \<and> rows df = map row ms"
proof -
  consider (m) "lower dt = ''mordred''" | (p) "lower dt = ''padel''" | (r) "lower dt = ''rdkit''"
    | (f) "lower dt = ''rdkit_frag''"
    using assms(2) by auto
  then show ?thesis
  proof cases
    case m
    from assms(1) obtain row where
      row: "\<And>ms df. Calculator_pandas tk ms = Inr df \<Longrightarrow>
              index df = RangeIndex (length ms) \<and> rows df = map row ms"
      unfolding tools_rowwise_def by blast
    show ?thesis
      by (rule exI [of _ row])
         (auto simp: compute_descriptor_def m mordred_descriptors_def lib_def
               split: sum.splits dest: row)
  next
    case p
    from assms(1) obtain entry names where
      tool: "\<And>ms desc. from_sdf tk ms = Inr desc \<Longrightarrow>
               desc = map entry ms \<and> list_all (\<lambda>m. map fst (entry m) = names) ms"
      unfolding tools_rowwise_def by blast
    let ?row = "\<lambda>m. map (\<lambda>c. case map_of (entry m) c of Some v \<Rightarrow> Val v | None \<Rightarrow> NaN)
                       (rev (remdups (rev names)))"
    have len: "index (DataFrame_records desc) = RangeIndex (length desc)"
      for desc :: "(string \<times> 'a) list list"
      by (simp add: DataFrame_records_def Let_def)
    show ?thesis
    proof (rule exI [of _ ?row], intro allI impI)
      fix ms kwargs fs df fs'
      assume "compute_descriptor tk \<lparr>mols = ms, desc_type = dt, use_fragment = uf, ipc_avg = ia\<rparr>
                kwargs fs = (Inr df, fs')"
      then have "padelpy_descriptors tk ms fs = (Inr df, fs')"
        by (simp add: compute_descriptor_def p)
      then obtain desc where d: "from_sdf tk ms = Inr desc" "df = DataFrame_records desc"
        using padelpy_descriptors_success by blast
      from tool [OF d(1)] have desc: "desc = map entry ms"
        and keys: "list_all (\<lambda>m. map fst (entry m) = names) ms"
        by simp_all
      show "index df = RangeIndex (length ms) \<and> rows df = map ?row ms"
        using DataFrame_records_rows [OF keys] len [of desc] by (simp add: d(2) desc)
    qed
  next
    case r
    let ?dl = "filter (\<lambda>(descriptor, function). \<not> (\<not> uf \<and> startswith descriptor ''fr_'')) (descList tk)"
    let ?row = "\<lambda>m. case rdkit_descriptors_low m ?dl ia [] of Inr y \<Rightarrow> map Val y | Inl e \<Rightarrow> []"
    show ?thesis
    proof (rule exI [of _ ?row], intro allI impI)
      fix ms kwargs fs df fs'
      assume a: "compute_descriptor tk \<lparr>mols = ms, desc_type = dt, use_fragment = uf, ipc_avg = ia\<rparr>
                   kwargs fs = (Inr df, fs')"
      have "kwargs = []"
      proof (rule ccontr)
        assume "kwargs \<noteq> []"
        then obtain k v rest where "kwargs = (k, v) # rest" by (cases kwargs) auto
        with a show False
          by (simp add: compute_descriptor_def r call_rdkit_descriptors_def bind_args_def)
      qed
      with a have b: "rdkit_descriptors tk ms uf ia [] = Inr df"
        by (simp add: compute_descriptor_def r call_rdkit_descriptors_plain)
      then obtain arr where arr: "for_each (\<lambda>mol. rdkit_descriptors_low mol ?dl ia []) ms = Inr arr"
        and df: "DataFrame_rows arr (map fst ?dl) = Inr df"
        by (auto simp: rdkit_descriptors_def Let_def call_rdkit_descriptors_low_plain split: sum.splits)
      have "arr = map (\<lambda>m. case rdkit_descriptors_low m ?dl ia [] of Inr y \<Rightarrow> y | Inl e \<Rightarrow> []) ms"
        using for_each_Inr_map [OF arr] .
      moreover have "index df = RangeIndex (length arr) \<and> rows df = map (map Val) arr"
        using df by (auto simp: DataFrame_rows_def split: if_splits)
      ultimately show "index df = RangeIndex (length ms) \<and> rows df = map ?row ms"
        by (auto split: sum.splits)
    qed
  next
    case f
    let ?fr = "foldl (\<lambda>d (name, function). setitem d name function) [] (drop 115 (descList tk))"
    let ?row = "\<lambda>m. case for_each (\<lambda>(d, function). lib (function m False)) ?fr of
                       Inr y \<Rightarrow> map Val y | Inl e \<Rightarrow> []"
    show ?thesis
    proof (rule exI [of _ ?row], intro allI impI)
      fix ms kwargs fs df fs'
      assume a: "compute_descriptor tk \<lparr>mols = ms, desc_type = dt, use_fragment = uf, ipc_avg = ia\<rparr>
                   kwargs fs = (Inr df, fs')"
      then have b: "rdkit_fragment_descriptors tk ms = Inr df"
        by (simp add: compute_descriptor_def f)
      then obtain arr where
        arr: "for_each (\<lambda>mol. for_each (\<lambda>(d, function). lib (function mol False)) ?fr) ms = Inr arr"
        and df: "index df = RangeIndex (length ms)" "rows df = map (map Val) arr"
        by (auto simp: rdkit_fragment_descriptors_def Let_def split: sum.splits if_splits)
      have "arr = map (\<lambda>m. case for_each (\<lambda>(d, function). lib (function m False)) ?fr of
                              Inr y \<Rightarrow> y | Inl e \<Rightarrow> []) ms"
        using for_each_Inr_map [OF arr] .
      with df show "index df = RangeIndex (length ms) \<and> rows df = map ?row ms"
        by (auto split: sum.splits)
    qed
  qed
qed

subsection \<open>A table is returned when the external calls return\<close>

lemma rdkit_descriptors_low_returns:
  assumes "list_all (\<lambda>(name, function). returned (function mol (name = ''Ipc'' \<and> ia))) dl"
  shows "\<exists>ys. rdkit_descriptors_low mol dl ia [] = Inr ys"
proof -
  have "list_all (\<lambda>x. \<exists>y. (case x of (desc_name, function) \<Rightarrow>
           if desc_name = ''Ipc'' \<and> ia then lib (function mol True) else lib (function mol False)) = Inr y) dl"
    using assms by (fastforce simp: list_all_iff intro: returned_lib)
  from for_each_returns [OF this] show ?thesis
    by (simp add: rdkit_descriptors_low_def)
qed

lemma rdkit_descriptors_returns:
  assumes "list_all (\<lambda>mol. list_all (\<lambda>(name, function). returned (function mol (name = ''Ipc'' \<and> ia)))
                   (filter (\<lambda>(descriptor, function). \<not> (\<not> uf \<and> startswith descriptor ''fr_''))
                      (descList tk))) ms"
  shows "\<exists>df. rdkit_descriptors tk ms uf ia [] = Inr df"
proof -
  let ?dl = "filter (\<lambda>(descriptor, function). \<not> (\<not> uf \<and> startswith descriptor ''fr_'')) (descList tk)"
  have "list_all (\<lambda>mol. \<exists>ys. rdkit_descriptors_low mol ?dl ia [] = Inr ys) ms"
    using assms by (auto simp: list_all_iff intro!: rdkit_descriptors_low_returns)
  from for_each_returns [OF this] obtain arr where
    arr: "for_each (\<lambda>mol. rdkit_descriptors_low mol ?dl ia []) ms = Inr arr" by blast
  have "length r = length ?dl" if "r \<in> set arr" for r
  proof -
    from for_each_all [OF arr that] obtain m where "rdkit_descriptors_low m ?dl ia [] = Inr r" by blast
    then show ?thesis
      by (auto simp: rdkit_descriptors_low_def dest: for_each_length)
  qed
  with arr show ?thesis
    by (simp add: rdkit_descriptors_def Let_def call_rdkit_descriptors_low_plain DataFrame_rows_def
          list_all_iff)
qed

lemma rdkit_fragment_descriptors_returns:
  assumes d: "distinct (map fst (drop 115 (descList tk)))"
    and ok: "list_all (\<lambda>mol. list_all (\<lambda>(name, function). returned (function mol False))
                        (drop 115 (descList tk))) ms"
  shows "\<exists>df. rdkit_fragment_descriptors tk ms = Inr df"
proof -
  let ?fr = "drop 115 (descList tk)"
  have fr: "foldl (\<lambda>d (name, function). setitem d name function) [] ?fr = ?fr"
    using dict_of_distinct [of "[]" ?fr] d by simp
  have "list_all (\<lambda>mol. \<exists>ys. for_each (\<lambda>(d, function). lib (function mol False)) ?fr = Inr ys) ms"
  proof -
    have "\<exists>ys. for_each (\<lambda>(d, function). lib (function mol False)) ?fr = Inr ys"
      if "mol \<in> set ms" for mol
    proof (rule for_each_returns)
      show "list_all (\<lambda>x. \<exists>y. (case x of (d, function) \<Rightarrow> lib (function mol False)) = Inr y) ?fr"
        using ok that by (fastforce simp: list_all_iff intro: returned_lib)
    qed
    then show ?thesis by (simp add: list_all_iff)
  qed
  from for_each_returns [OF this] obtain arr where
    "for_each (\<lambda>mol. for_each (\<lambda>(d, function). lib (function mol False)) ?fr) ms = Inr arr" by blast
  then show ?thesis
    by (simp add: rdkit_fragment_descriptors_def Let_def fr)
qed

lemma compute_descriptor_returns:
  assumes "backend_succeeds tk dt uf ia ms"
  shows "\<exists>df fs'. compute_descriptor tk \<lparr>mols = ms, desc_type = dt, use_fragment = uf, ipc_avg = ia\<rparr> [] fs
           = (Inr df, fs')"
proof -
  consider (m) "lower dt = ''mordred''" | (p) "lower dt = ''padel''" | (r) "lower dt = ''rdkit''"
    | (f) "lower dt = ''rdkit_frag''"
    using assms by (auto simp: backend_succeeds_def split: if_splits)
  then show ?thesis
  proof cases
    case m
    with assms have "returned (Calculator_pandas tk ms)"
      by (simp add: backend_succeeds_def)
    from returned_lib [OF this] show ?thesis
      by (auto simp: compute_descriptor_def m mordred_descriptors_def)
  next
    case p
    with assms have "returned (from_sdf tk ms)"
      by (simp add: backend_succeeds_def)
    then obtain desc where "from_sdf tk ms = Inr desc"
      by (cases "from_sdf tk ms") (simp_all add: returned_def)
    from padelpy_descriptors_returns [OF this] show ?thesis
      by (simp add: compute_descriptor_def p)
  next
    case r
    with assms rdkit_descriptors_returns [of ia uf tk ms] show ?thesis
      by (auto simp: backend_succeeds_def compute_descriptor_def call_rdkit_descriptors_plain)
  next
    case f
    with assms rdkit_fragment_descriptors_returns [of tk ms] show ?thesis
      by (auto simp: backend_succeeds_def compute_descriptor_def)
  qed
qed

subsection \<open>One row per molecule, in the order of the list\<close>

text \<open>
  C5. For each of the four selectors there is a function from a molecule to a row such
  that, for every molecule list on which the external calls of the selector return,
  \<open>compute_descriptor\<close> returns a table whose rows are the rows of the molecules, one per
  molecule and in the order of the list, labelled \<open>0\<close> to \<open>len(mols) - 1\<close>; and every
  table it returns at all, with or without extra keyword arguments, is of this form. For
  \<open>rdkit\<close> and \<open>rdkit_frag\<close> the rows are computed here; for \<open>mordred\<close> and \<open>padel\<close> the
  molecules are handed to the tool in their order and the tool's table is returned as it
  is, so its rows are the tool's, which are assumed to be one per molecule in order.
\<close>

theorem compute_descriptor_one_row_per_molecule:
  assumes "tools_rowwise tk" and "lower dt \<in> {''mordred'', ''padel'', ''rdkit'', ''rdkit_frag''}"
  shows "\<exists>row. \<forall>ms fs.
           (backend_succeeds tk dt uf ia ms \<longrightarrow>
              (\<exists>df fs'.
                 compute_descriptor tk \<lparr>mols = ms, desc_type = dt, use_fragment = uf, ipc_avg = ia\<rparr> [] fs
                   = (Inr df, fs')
                 \<and> index df = RangeIndex (length ms) \<and> rows df = map row ms))
         \<and> (\<forall>kwargs df fs'.
              compute_descriptor tk \<lparr>mols = ms, desc_type = dt, use_fragment = uf, ipc_avg = ia\<rparr> kwargs fs
                = (Inr df, fs')
              \<longrightarrow> index df = RangeIndex (length ms) \<and> rows df = map row ms)"
proof -
  from rows_of_returned_table [OF assms, of uf ia] obtain row where
    row: "\<And>ms kwargs fs df fs'.
            compute_descriptor tk \<lparr>mols = ms, desc_type = dt, use_fragment = uf, ipc_avg = ia\<rparr> kwargs fs
              = (Inr df, fs')
            \<Longrightarrow> index df = RangeIndex (length ms) \<and> rows df = map row ms"
    by blast
  show ?thesis
  proof (rule exI [of _ row], intro allI conjI impI)
    fix ms fs
    assume "backend_succeeds tk dt uf ia ms"
    from compute_descriptor_returns [OF this, of fs] obtain df fs' where
      r: "compute_descriptor tk \<lparr>mols = ms, desc_type = dt, use_fragment = uf, ipc_avg = ia\<rparr> [] fs
            = (Inr df, fs')"
      by blast
    with row [OF r] show "\<exists>df fs'.
        compute_descriptor tk \<lparr>mols = ms, desc_type = dt, use_fragment = uf, ipc_avg = ia\<rparr> [] fs
          = (Inr df, fs')
        \<and> index df = RangeIndex (length ms) \<and> rows df = map row ms"
      by blast
  next
    fix ms fs kwargs df fs'
    assume "compute_descriptor tk \<lparr>mols = ms, desc_type = dt, use_fragment = uf, ipc_avg = ia\<rparr> kwargs fs
              = (Inr df, fs')"
    from row [OF this] show "index df = RangeIndex (length ms)" and "rows df = map row ms"
      by simp_all
  qed
qed

lemma toy_mordred_table:
  "compute_descriptor toy_toolkit
     \<lparr>mols = [aspirin, ethanol], desc_type = ''Mordred'', use_fragment = True, ipc_avg = True\<rparr>
     [] Map.empty
   = (Inr \<lparr>index = RangeIndex 2, columns = Index [''nAtom''], rows = [[Val 21], [Val 3]]\<rparr>,
      Map.empty)"
  by (simp add: compute_descriptor_def lower_Mordred mordred_descriptors_def toy_toolkit_def lib_def
        aspirin_def ethanol_def)

lemma toy_padel_table:
  "compute_descriptor toy_toolkit
     \<lparr>mols = [aspirin, ethanol], desc_type = ''padel'', use_fragment = True, ipc_avg = True\<rparr>
     [] Map.empty
   = (Inr \<lparr>index = RangeIndex 2, columns = Index [''nAtoms''], rows = [[Val 21], [Val 3]]\<rparr>,
      Map.empty)"
proof -
  have "from_sdf toy_toolkit [aspirin, ethanol]
          = Inr [[(''nAtoms'', 21)], [(''nAtoms'', 3)]]"
    by (simp add: toy_toolkit_def aspirin_def ethanol_def)
  from padelpy_descriptors_returns [OF this, of Map.empty] show ?thesis
    by (simp add: compute_descriptor_def lower_padel DataFrame_records_def)
qed

lemma toy_rdkit_table:
  "compute_descriptor toy_toolkit
     \<lparr>mols = [aspirin, ethanol], desc_type = ''RDKit'', use_fragment = False, ipc_avg = False\<rparr>
     [] Map.empty
   = (Inr \<lparr>index = RangeIndex 2, columns = Index [''MolWt'', ''Ipc''],
           rows = [[Val 21, Val 2], [Val 3, Val 2]]\<rparr>, Map.empty)"
  by (simp add: compute_descriptor_def lower_RDKit call_rdkit_descriptors_plain rdkit_descriptors_def
        call_rdkit_descriptors_low_plain rdkit_descriptors_low_def
        toy_toolkit_def startswith_def lib_def DataFrame_rows_def aspirin_def ethanol_def)

lemma toy_fragment_table:
  "compute_descriptor toy_fragment_toolkit
     \<lparr>mols = [aspirin, ethanol], desc_type = ''rdkit_frag'', use_fragment = True, ipc_avg = True\<rparr>
     [] Map.empty
   = (Inr \<lparr>index = RangeIndex 2, columns = Index [''fr_ether'', ''fr_ketone''],
           rows = [[Val 4, Val 2], [Val 1, Val 0]]\<rparr>, Map.empty)"
  by (simp add: compute_descriptor_def lower_rdkit_frag rdkit_fragment_descriptors_def
        toy_fragment_toolkit_def lib_def aspirin_def ethanol_def)

lemma toy_backends:
  "backend_succeeds toy_toolkit ''Mordred'' True True [aspirin, ethanol]"
  "backend_succeeds toy_toolkit ''padel'' True True [aspirin, ethanol]"
  "backend_succeeds toy_toolkit ''RDKit'' False False [aspirin, ethanol]"
  "backend_succeeds toy_fragment_toolkit ''rdkit_frag'' True True [aspirin, ethanol]"
  by (simp_all add: backend_succeeds_def lower_Mordred lower_padel lower_RDKit lower_rdkit_frag
        returned_def toy_toolkit_def toy_fragment_toolkit_def startswith_def aspirin_def ethanol_def)

theorem compute_descriptor_one_row_per_molecule_witness:
  "tools_rowwise toy_toolkit \<and> tools_rowwise toy_fragment_toolkit
   \<and> backend_succeeds toy_toolkit ''Mordred'' True True [aspirin, ethanol]
   \<and> compute_descriptor toy_toolkit
        \<lparr>mols = [aspirin, ethanol], desc_type = ''Mordred'', use_fragment = True, ipc_avg = True\<rparr>
        [] Map.empty
      = (Inr \<lparr>index = RangeIndex 2, columns = Index [''nAtom''], rows = [[Val 21], [Val 3]]\<rparr>,
         Map.empty)
   \<and> backend_succeeds toy_toolkit ''padel'' True True [aspirin, ethanol]
   \<and> compute_descriptor toy_toolkit
        \<lparr>mols = [aspirin, ethanol], desc_type = ''padel'', use_fragment = True, ipc_avg = True\<rparr>
        [] Map.empty
      = (Inr \<lparr>index = RangeIndex 2, columns = Index [''nAtoms''], rows = [[Val 21], [Val 3]]\<rparr>,
         Map.empty)
   \<and> backend_succeeds toy_toolkit ''RDKit'' False False [aspirin, ethanol]
   \<and> compute_descriptor toy_toolkit
        \<lparr>mols = [aspirin, ethanol], desc_type = ''RDKit'', use_fragment = False, ipc_avg = False\<rparr>
        [] Map.empty
      = (Inr \<lparr>index = RangeIndex 2, columns = Index [''MolWt'', ''Ipc''],
              rows = [[Val 21, Val 2], [Val 3, Val 2]]\<rparr>, Map.empty)
   \<and> backend_succeeds toy_fragment_toolkit ''rdkit_frag'' True True [aspirin, ethanol]
   \<and> compute_descriptor toy_fragment_toolkit
        \<lparr>mols = [aspirin, ethanol], desc_type = ''rdkit_frag'', use_fragment = True, ipc_avg = True\<rparr>
        [] Map.empty
      = (Inr \<lparr>index = RangeIndex 2, columns = Index [''fr_ether'', ''fr_ketone''],
              rows = [[Val 4, Val 2], [Val 1, Val 0]]\<rparr>, Map.empty)
   \<and> (\<exists>m p r f.
         [[Val (21::int)], [Val 3]] = map m [aspirin, ethanol]
       \<and> [[Val (21::int)], [Val 3]] = map p [aspirin, ethanol]
       \<and> [[Val (21::int), Val 2], [Val 3, Val 2]] = map r [aspirin, ethanol]
       \<and> [[Val (4::int), Val 2], [Val 1, Val 0]] = map f [aspirin, ethanol])"
proof -
  have use: "\<exists>row. \<forall>df fs'.
      compute_descriptor tk \<lparr>mols = ms, desc_type = dt, use_fragment = uf, ipc_avg = ia\<rparr> [] Map.empty
        = (Inr df, fs') \<longrightarrow> rows df = map row ms"
    if "tools_rowwise tk" and "lower dt \<in> {''mordred'', ''padel'', ''rdkit'', ''rdkit_frag''}"
      and "backend_succeeds tk dt uf ia ms"
    for tk :: "int toolkit" and dt uf ia ms
  proof -
    from compute_descriptor_one_row_per_molecule [OF that(1,2), of uf ia] obtain row where
      "\<And>ms fs. backend_succeeds tk dt uf ia ms \<Longrightarrow>
         (\<exists>df fs'.
            compute_descriptor tk \<lparr>mols = ms, desc_type = dt, use_fragment = uf, ipc_avg = ia\<rparr> [] fs
              = (Inr df, fs')
            \<and> index df = RangeIndex (length ms) \<and> rows df = map row ms)"
      by blast
    from this [OF that(3), of Map.empty] show ?thesis
      by (intro exI [of _ row]) auto
  qed
  have sel: "lower ''Mordred'' \<in> {''mordred'', ''padel'', ''rdkit'', ''rdkit_frag''}"
    "lower ''padel'' \<in> {''mordred'', ''padel'', ''rdkit'', ''rdkit_frag''}"
    "lower ''RDKit'' \<in> {''mordred'', ''padel'', ''rdkit'', ''rdkit_frag''}"
    "lower ''rdkit_frag'' \<in> {''mordred'', ''padel'', ''rdkit'', ''rdkit_frag''}"
    by (simp_all add: lower_Mordred lower_padel lower_RDKit lower_rdkit_frag)
  from use [OF toy_rowwise sel(1) toy_backends(1)] toy_mordred_table
  obtain m where m: "[[Val (21::int)], [Val 3]] = map m [aspirin, ethanol]"
    by (metis DataFrame.select_convs(3))
  from use [OF toy_rowwise sel(2) toy_backends(2)] toy_padel_table
  obtain p where p: "[[Val (21::int)], [Val 3]] = map p [aspirin, ethanol]"
    by (metis DataFrame.select_convs(3))
  from use [OF toy_rowwise sel(3) toy_backends(3)] toy_rdkit_table
  obtain r where r: "[[Val (21::int), Val 2], [Val 3, Val 2]] = map r [aspirin, ethanol]"
    by (metis DataFrame.select_convs(3))
  from use [OF toy_fragment_rowwise sel(4) toy_backends(4)] toy_fragment_table
  obtain f where f: "[[Val (4::int), Val 2], [Val 1, Val 0]] = map f [aspirin, ethanol]"
    by (metis DataFrame.select_convs(3))
  have "\<exists>m p r f.
         [[Val (21::int)], [Val 3]] = map m [aspirin, ethanol]
       \<and> [[Val (21::int)], [Val 3]] = map p [aspirin, ethanol]
       \<and> [[Val (21::int), Val 2], [Val 3, Val 2]] = map r [aspirin, ethanol]
       \<and> [[Val (4::int), Val 2], [Val 1, Val 0]] = map f [aspirin, ethanol]"
    by (rule exI [of _ m], rule exI [of _ p], rule exI [of _ r], rule exI [of _ f])
       (intro conjI m p r f)
  with toy_rowwise toy_fragment_rowwise toy_backends toy_mordred_table toy_padel_table
    toy_rdkit_table toy_fragment_table
  show ?thesis
    by (intro conjI)
qed

section \<open>The temporary file of the external-tool path\<close>

text \<open>
  C3 does not hold of the code: when the external tool raises,
  \<open>padelpy_descriptors\<close> leaves at once, and the temporary file
  \<open>padelpy_out_tmp.sdf\<close> stays in the working directory, holding the molecules written.
\<close>

theorem padelpy_descriptors_failure_leaves_file:
  assumes "from_sdf tk ms = Inl msg"
  shows "padelpy_descriptors tk ms fs
           = (Inl (LibraryError msg), fs(''padelpy_out_tmp.sdf'' \<mapsto> ms))"
  using assms
  by (simp add: padelpy_descriptors_def Let_def written_records [of _ _ "[]", simplified] lib_def)

theorem padelpy_descriptors_failure_leaves_file_witness:
  "from_sdf toy_toolkit [ethanol, unreadable] = Inl ''PaDEL-Descriptor failed''
   \<and> padelpy_descriptors toy_toolkit [ethanol, unreadable] Map.empty
       = (Inl (LibraryError ''PaDEL-Descriptor failed''),
          [''padelpy_out_tmp.sdf'' \<mapsto> [ethanol, unreadable]])"
proof -
  have h: "from_sdf toy_toolkit [ethanol, unreadable] = Inl ''PaDEL-Descriptor failed''"
    by (simp add: toy_toolkit_def unreadable_def ethanol_def)
  show ?thesis
    using h padelpy_descriptors_failure_leaves_file [OF h, of Map.empty] by simp
qed

section \<open>Fingerprint generation: the selector\<close>

text \<open>
  C1 does not hold of the code: for a selector whose uppercased form is none of the five
  accepted ones no table is returned, but the exception is not the \<open>ValueError\<close>. Its
  message reads \<open>self.desc_type\<close>, an attribute a \<open>FingerprintGenerator\<close> does not have,
  so building the message raises \<open>AttributeError\<close>.
\<close>

theorem compute_fingerprint_unknown_selector:
  assumes "upper (fp_type self) \<notin> set [''SECFP'', ''ECFP'', ''MORGAN'', ''RDKFINGERPRINT'', ''MACCSKEYS'']"
  shows "compute_fingerprint tk self =
           Inl (AttributeError ''FingerprintGenerator object has no attribute desc_type'')"
  using assms by (simp add: compute_fingerprint_def getattr_def instance_dict_def)

theorem compute_fingerprint_unknown_selector_witness:
  "upper ''E3FP'' \<notin> set [''SECFP'', ''ECFP'', ''MORGAN'', ''RDKFINGERPRINT'', ''MACCSKEYS'']
   \<and> compute_fingerprint toy_toolkit
        \<lparr>mols = [ethanol], fp_type = ''E3FP'', n_bits = 2048, radius = 3, min_radius = 1,
         random_seed = 12345, rings = True, isomeric = True, kekulize = False,
         mol_names = [''CCO'']\<rparr>
      = Inl (AttributeError ''FingerprintGenerator object has no attribute desc_type'')"
proof -
  have h: "upper (fp_type \<lparr>mols = [ethanol], fp_type = ''E3FP'', n_bits = 2048, radius = 3,
         min_radius = 1, random_seed = 12345, rings = True, isomeric = True, kekulize = False,
         mol_names = [''CCO'']\<rparr>)
        \<notin> set [''SECFP'', ''ECFP'', ''MORGAN'', ''RDKFINGERPRINT'', ''MACCSKEYS'']"
    by (simp add: upper_E3FP)
  show ?thesis
    using h compute_fingerprint_unknown_selector [OF h, of toy_toolkit] by simp
qed

text \<open>
  C9, for a list with at least one molecule. A selector that passes the check of
  \<open>compute_fingerprint\<close> (its uppercased form is one of the five) but is not one of the
  spellings \<open>SECFP\<close>, \<open>ECFP\<close>, \<open>Morgan\<close>, \<open>RDKFingerprint\<close>, \<open>MaCCSKeys\<close> raises the
  \<open>NotImplementedError\<close> of the low-level dispatch, which names the selector, at the
  first molecule; no table is returned.
\<close>

theorem compute_fingerprint_other_spelling:
  assumes "upper (fp_type self) \<in> set [''SECFP'', ''ECFP'', ''MORGAN'', ''RDKFINGERPRINT'', ''MACCSKEYS'']"
    and "fp_type self \<notin> set [''SECFP'', ''ECFP'', ''Morgan'', ''RDKFingerprint'', ''MaCCSKeys'']"
    and "mols self \<noteq> []"
  shows "compute_fingerprint tk self =
           Inl (NotImplementedError (fp_type self @ '' not implemented yet.''))"
proof -
  obtain m ms where ms: "mols self = m # ms"
    using assms(3) by (cases "mols self") auto
  have low: "rdkit_fingerprint_low tk m (fp_type self) (n_bits self) (radius self)
               (min_radius self) (random_seed self) (rings self) (isomeric self) (kekulize self)
             = Inl (NotImplementedError (fp_type self @ '' not implemented yet.''))"
    using assms(2) by (simp add: rdkit_fingerprint_low_def)
  show ?thesis
    using assms(1) by (simp add: compute_fingerprint_def ms low)
qed

theorem compute_fingerprint_other_spelling_witness:
  "upper ''morgan'' \<in> set [''SECFP'', ''ECFP'', ''MORGAN'', ''RDKFINGERPRINT'', ''MACCSKEYS'']
   \<and> ''morgan'' \<notin> set [''SECFP'', ''ECFP'', ''Morgan'', ''RDKFingerprint'', ''MaCCSKeys'']
   \<and> compute_fingerprint toy_toolkit
        \<lparr>mols = [ethanol], fp_type = ''morgan'', n_bits = 2048, radius = 3, min_radius = 1,
         random_seed = 12345, rings = True, isomeric = True, kekulize = False,
         mol_names = [''CCO'']\<rparr>
      = Inl (NotImplementedError ''morgan not implemented yet.'')"
proof -
  let ?self = "\<lparr>mols = [ethanol], fp_type = ''morgan'', n_bits = 2048, radius = 3, min_radius = 1,
         random_seed = 12345, rings = True, isomeric = True, kekulize = False,
         mol_names = [''CCO'']\<rparr>"
  have a: "upper (fp_type ?self) \<in> set [''SECFP'', ''ECFP'', ''MORGAN'', ''RDKFINGERPRINT'', ''MACCSKEYS'']"
    by (simp add: upper_morgan)
  have b: "fp_type ?self \<notin> set [''SECFP'', ''ECFP'', ''Morgan'', ''RDKFingerprint'', ''MaCCSKeys'']"
    by simp
  have c: "mols ?self \<noteq> []"
    by simp
  show ?thesis
    using a b compute_fingerprint_other_spelling [OF a b c, of toy_toolkit] by simp
qed

text \<open>
  The claim C9 as it is written, for every generator, fails on the empty molecule list:
  the low-level dispatch is never called, and \<open>compute_fingerprint\<close> returns an empty
  table for the selector \<open>morgan\<close>.
\<close>

theorem compute_fingerprint_other_spelling_counterexample:
  "compute_fingerprint toy_toolkit
     \<lparr>mols = [], fp_type = ''morgan'', n_bits = 2048, radius = 3, min_radius = 1,
      random_seed = 12345, rings = True, isomeric = True, kekulize = False, mol_names = []\<rparr>
   = Inr \<lparr>index = Index [], columns = RangeIndex 1, rows = []\<rparr>"
  by (simp add: compute_fingerprint_def upper_morgan DataFrame_array_def)

text \<open>The same holds of every selector that passes the check.\<close>

lemma compute_fingerprint_no_molecules:
  assumes "upper (fp_type self) \<in> set [''SECFP'', ''ECFP'', ''MORGAN'', ''RDKFINGERPRINT'', ''MACCSKEYS'']"
    and "mols self = []" and "mol_names self = []"
  shows "compute_fingerprint tk self = Inr \<lparr>index = Index [], columns = RangeIndex 1, rows = []\<rparr>"
  using assms by (simp add: compute_fingerprint_def DataFrame_array_def)

section \<open>The width of the fingerprints\<close>


lemma toy_ECFP_table:
  "compute_fingerprint toy_toolkit
     \<lparr>mols = [aspirin, ethanol], fp_type = ''ECFP'', n_bits = 4, radius = 3, min_radius = 1,
      random_seed = 12345, rings = True, isomeric = True, kekulize = False,
      mol_names = [''CC(=O)Oc1ccccc1C(=O)O'', ''CCO'']\<rparr>
   = Inr \<lparr>index = Index [''CC(=O)Oc1ccccc1C(=O)O'', ''CCO''], columns = RangeIndex 4,
          rows = [[False, False, False, False], [False, False, False, False]]\<rparr>"
  by (simp add: compute_fingerprint_def upper_ECFP rdkit_fingerprint_low_def toy_toolkit_def lib_def
        DataFrame_array_def numeral_eq_Suc)




section \<open>The row labels of the fingerprint table\<close>

lemma private_name: "map_of (GetPropsAsDict mol False) ''_Name'' = None"
  by (auto simp: GetPropsAsDict_def map_of_eq_None_iff startswith_def)

text \<open>
  C6 does not hold of the code: \<open>GetPropsAsDict()\<close> is called with its defaults, which
  leave out the private properties, \<open>_Name\<close> among them. The test for a name is always
  negative, and the name of every molecule is its SMILES, also when \<open>_Name\<close> is set.
\<close>

theorem mol_names_are_smiles:
  "FingerprintGenerator_init tk ms ty nb rad minr seed rngs isom kek =
     Inr \<lparr>mols = ms, fp_type = ty, n_bits = nb, radius = rad, min_radius = minr, random_seed = seed,
          rings = rngs, isomeric = isom, kekulize = kek, mol_names = map (MolToSmiles tk) ms\<rparr>"
  by (simp add: FingerprintGenerator_init_def private_name for_each_total)

theorem mol_names_are_smiles_witness:
  "GetProp aspirin ''_Name'' = Inr ''aspirin''
   \<and> (case FingerprintGenerator_init toy_toolkit [aspirin, ethanol] ''ECFP'' 4 3 1 12345 True True False of
        Inl e \<Rightarrow> Inl e
      | Inr self \<Rightarrow> compute_fingerprint toy_toolkit self)
     = Inr \<lparr>index = Index [''CC(=O)Oc1ccccc1C(=O)O'', ''CCO''], columns = RangeIndex 4,
            rows = [[False, False, False, False], [False, False, False, False]]\<rparr>"
  using mol_names_are_smiles [of toy_toolkit "[aspirin, ethanol]" "''ECFP''" 4 3 1 12345 True True False]
    toy_ECFP_table
  by (simp add: toy_toolkit_def aspirin_def ethanol_def GetProp_def)

end
